theory Spec2Isabelle
  imports
    Complex_Main
    "HOL-Library.Product_Lexorder"
    "HOL-Library.Char_ord"
    "HOL-Library.List_Lexorder"
    "HOL-Library.Log_Nat"
    "HOL-Library.Multiset"
begin

section \<open>Python values\<close>

text \<open>
  Values that travel through the program without a static type (the decoded API payload,
  the dictionaries returned by the database layer) are Python objects.  The constructors
  cover what \<^verbatim>\<open>json\<close> decoding and \<^verbatim>\<open>sqlite3\<close> rows produce, floating
  point numbers excepted.  A dictionary is an association list in insertion order.
\<close>

datatype py =
    PNone
  | PBool bool
  | PInt int
  | PStr string
  | PList "py list"
  | PDict "(string \<times> py) list"

datatype py_error =
    AttributeError
  | TypeError
  | OverflowError
  | JSONDecodeError
  | InterfaceError
  | IntegrityError
  | OperationalError
  | FileNotFoundError
  | ValueError
  | SameFileError
  | OSError

section \<open>Entity model (models/subscription.py)\<close>

record query =
  query_id :: "int option"
  query_text :: string
  human_name :: string
  display_name :: string
  last_check_time :: int
  next_check_time :: int
  next_check_status :: string
  paused :: bool
  dead :: bool
  checking_now :: bool
  can_check_now :: bool
  checker_status :: int
  file_velocity :: "py list"
  file_seed_cache_status :: string
  last_file_time :: int
  acknowledged :: bool
  acknowledged_time :: int

record subscription =
  name :: string
  gug_name :: string
  queries :: "query list"

record subscription_data =
  subscriptions :: "subscription list"
  version :: int
  hydrus_version :: string

text \<open>\<^verbatim>\<open>Query.is_expired_acknowledgment\<close>; the clock reading is the argument \<open>now\<close>.\<close>

definition is_expired_acknowledgment :: "query \<Rightarrow> int \<Rightarrow> bool" where
  "is_expired_acknowledgment q now =
     (if \<not> acknowledged q \<or> acknowledged_time q = 0 then False
      else acknowledged_time q \<le> now)"

definition get_subscription_by_name :: "subscription_data \<Rightarrow> string \<Rightarrow> subscription option" where
  "get_subscription_by_name sd n = find (\<lambda>sub. name sub = n) (subscriptions sd)"

section \<open>Ranking (controllers/main_controller.py)\<close>

record main_controller =
  subscription_data :: "subscription_data option"
  current_filter :: "string option"

text \<open>
  \<^verbatim>\<open>if self.current_filter\<close> is false for \<^verbatim>\<open>None\<close> and for the empty string; a
  dataclass instance is always true, so \<^verbatim>\<open>not self.subscription_data\<close> tests for
  \<^verbatim>\<open>None\<close> only.
\<close>

definition get_filtered_subscriptions :: "main_controller \<Rightarrow> subscription list" where
  "get_filtered_subscriptions c =
     (case subscription_data c of
        None \<Rightarrow> []
      | Some sd \<Rightarrow>
          (case current_filter c of
             None \<Rightarrow> subscriptions sd
           | Some f \<Rightarrow>
               if f = [] then subscriptions sd
               else (case get_subscription_by_name sd f of
                       Some sub \<Rightarrow> [sub]
                     | None \<Rightarrow> [])))"

definition all_queries :: "main_controller \<Rightarrow> (string \<times> query) list" where
  "all_queries c =
     concat (map (\<lambda>sub. map (\<lambda>q. (name sub, q)) (queries sub)) (get_filtered_subscriptions c))"

definition sort_key_fn :: "string \<times> query \<Rightarrow> nat \<times> int" where
  "sort_key_fn item =
     (let q = snd item in
      if acknowledged q then (2, last_file_time q)
      else if last_file_time q = 0 then (1, 0)
      else (0, last_file_time q))"

text \<open>
  \<^verbatim>\<open>list.sort(key=...)\<close> is a stable sort on the keys, tuples compared
  lexicographically.  The result of a stable sort is determined by the input, so the
  insertion sort \<^const>\<open>sort_key\<close> of the list library computes it.
\<close>

definition get_all_queries_sorted :: "main_controller \<Rightarrow> (string \<times> query) list" where
  "get_all_queries_sorted c =
     (case subscription_data c of
        None \<Rightarrow> []
      | Some sd \<Rightarrow> sort_key sort_key_fn (all_queries c))"

section \<open>Python floats\<close>

text \<open>
  Python's \<^verbatim>\<open>float\<close> is IEEE 754 binary64.  Every arithmetic operation returns the
  exact result rounded to the nearest value with a 53 bit significand, ties to the even
  significand.  \<open>binary64\<close> is that rounding on the rationals; the exponent is left
  unbounded, so results beyond \<open>2 ^ 1024\<close> or below \<open>2 ^ - 1022\<close> in magnitude
  (overflow, gradual underflow) are outside the model.
\<close>

definition round_half_even :: "rat \<Rightarrow> int" where
  "round_half_even r =
     (let n = \<lfloor>r\<rfloor>; d = r - of_int n in
      if d < 1 / 2 then n
      else if 1 / 2 < d then n + 1
      else if even n then n else n + 1)"

text \<open>For \<open>0 < x\<close>, the \<open>e\<close> with \<open>2 ^ e \<le> x < 2 ^ (e + 1)\<close>.\<close>

definition float_exponent :: "rat \<Rightarrow> int" where
  "float_exponent x =
     (let (p, q) = quotient_of x;
          e = bitlen p - bitlen q
      in if 2 powi e \<le> x then e else e - 1)"

definition binary64 :: "rat \<Rightarrow> rat" where
  "binary64 x =
     (if x = 0 then 0
      else let u = 2 powi (float_exponent \<bar>x\<bar> - 52)
           in sgn x * of_int (round_half_even (\<bar>x\<bar> / u)) * u)"

text \<open>\<^verbatim>\<open>a / b\<close> on two ints (the quotient correctly rounded), float product and difference.\<close>

definition py_truediv :: "int \<Rightarrow> int \<Rightarrow> rat" where
  "py_truediv a b = binary64 (of_int a / of_int b)"

definition float_mul :: "rat \<Rightarrow> rat \<Rightarrow> rat" where
  "float_mul x y = binary64 (x * y)"

definition float_sub :: "rat \<Rightarrow> rat \<Rightarrow> rat" where
  "float_sub x y = binary64 (x - y)"

text \<open>\<^verbatim>\<open>int(x)\<close> on a float truncates towards zero.\<close>

definition py_int :: "rat \<Rightarrow> int" where
  "py_int x = (if 0 \<le> x then \<lfloor>x\<rfloor> else \<lceil>x\<rceil>)"

section \<open>Colouring (utils/formatters.py, views/widgets/query_tree.py)\<close>

datatype qcolor = QColor (red: int) (green: int) (blue: int)

text \<open>
  The division in \<open>age_ratio\<close> is reached only when \<open>min_time \<noteq> max_time\<close>, so its
  divisor is never zero.
\<close>

definition age_ratio :: "int \<Rightarrow> int \<Rightarrow> int \<Rightarrow> rat" where
  "age_ratio lft min_time max_time = py_truediv (max_time - lft) (max_time - min_time)"

definition get_color_for_age :: "int \<Rightarrow> int \<Rightarrow> int \<Rightarrow> qcolor" where
  "get_color_for_age lft min_time max_time =
     (if lft = 0 then QColor 240 240 240
      else if min_time = max_time then QColor 255 220 180
      else let r = age_ratio lft min_time max_time
           in QColor 255
                (py_int (float_sub 240 (float_mul r 100)))
                (py_int (float_sub 200 (float_mul r 140))))"

definition get_status_color :: "query \<Rightarrow> int \<Rightarrow> int \<Rightarrow> qcolor option" where
  "get_status_color q ack_time now =
     (if acknowledged q \<and> (ack_time = 0 \<or> ack_time > now) then Some (QColor 200 255 200)
      else if dead q then Some (QColor 255 200 200)
      else if paused q then Some (QColor 230 230 230)
      else None)"

text \<open>The background colour \<^verbatim>\<open>_create_query_item\<close> gives a row.\<close>

definition final_color :: "query \<Rightarrow> int \<Rightarrow> int \<Rightarrow> int \<Rightarrow> qcolor" where
  "final_color q now min_time max_time =
     (case get_status_color q (acknowledged_time q) now of
        Some c \<Rightarrow> c
      | None \<Rightarrow> get_color_for_age (last_file_time q) min_time max_time)"

text \<open>
  The normalisation domain of \<^verbatim>\<open>populate_queries\<close>: \<open>valid_times\<close>, and the pair
  \<open>(min_time, max_time)\<close>, both zero when \<open>valid_times\<close> is empty.
\<close>

definition valid_times :: "(string \<times> query) list \<Rightarrow> int list" where
  "valid_times qs =
     map (\<lambda>it. last_file_time (snd it))
       (filter (\<lambda>it. last_file_time (snd it) > 0 \<and> \<not> acknowledged (snd it)) qs)"

definition time_bounds :: "(string \<times> query) list \<Rightarrow> int \<times> int" where
  "time_bounds qs =
     (let vt = valid_times qs in
      if vt \<noteq> [] then (Min (set vt), Max (set vt)) else (0, 0))"

text \<open>The colours of the rows \<^verbatim>\<open>populate_queries\<close> adds, in display order.\<close>

definition populate_queries :: "(string \<times> query) list \<Rightarrow> int \<Rightarrow> qcolor list" where
  "populate_queries qs now =
     (if qs = [] then []
      else let (min_time, max_time) = time_bounds qs
           in map (\<lambda>it. final_color (snd it) now min_time max_time) qs)"

section \<open>Python dictionaries and iteration\<close>




section \<open>The relational store (models/database.py)\<close>

text \<open>
  A stored value is \<^verbatim>\<open>NULL\<close>, a 64 bit integer or a text.  Values are stored as they
  are bound: the conversions of SQLite's column affinity are not modelled, so the model
  follows the code on payloads whose fields have the types of the API contract.  The
  columns \<^verbatim>\<open>created_at\<close> and \<^verbatim>\<open>updated_at\<close>, which no operation reads, are left
  out of the rows.
\<close>

datatype sql_value = SNull | SInt int | SText string

record subscription_row =
  s_id :: int
  s_name :: sql_value
  s_gug_name :: sql_value

record query_row =
  q_id :: int
  q_subscription_id :: sql_value
  q_query_text :: sql_value
  q_human_name :: sql_value
  q_display_name :: sql_value
  q_last_check_time :: sql_value
  q_next_check_time :: sql_value
  q_next_check_status :: sql_value
  q_paused :: sql_value
  q_dead :: sql_value
  q_checking_now :: sql_value
  q_can_check_now :: sql_value
  q_checker_status :: sql_value
  q_file_velocity_data :: sql_value
  q_file_seed_cache_status :: sql_value
  q_last_file_time :: sql_value
  q_acknowledged :: sql_value
  q_acknowledged_time :: sql_value

text \<open>
  The content of a database file: each of the two relations, if the file has it, with
  its rows in rowid order, and the \<^verbatim>\<open>AUTOINCREMENT\<close> counters of
  \<^verbatim>\<open>sqlite_sequence\<close>.
\<close>

record database =
  subscriptions_table :: "subscription_row list option"
  queries_table :: "query_row list option"
  subscriptions_seq :: int
  queries_seq :: int

text \<open>
  What the environment decides: whether \<^verbatim>\<open>sqlite3.connect\<close> succeeds, and which of
  the statements that a call executes (numbered from 0, the commit included) fail with
  an error of the storage engine.
\<close>

record db_env =
  can_connect :: bool
  failing :: "nat set"

text \<open>
  A connection holds the committed content of the file and the content as the open
  transaction sees it.  \<^verbatim>\<open>sqlite3\<close> opens a transaction before the first modifying
  statement; \<open>commit\<close> makes the working content the committed one, \<open>rollback\<close> drops
  it, and closing a connection leaves the committed content in the file.  A statement
  that fails changes nothing by itself.  \<open>rollback\<close> and \<open>close\<close> are taken not to fail.
\<close>

record connection =
  committed :: database
  working :: database
  executed :: nat

definition connect :: "database \<Rightarrow> connection" where
  "connect db = \<lparr>committed = db, working = db, executed = 0\<rparr>"

definition execute ::
  "db_env \<Rightarrow> (database \<Rightarrow> py_error + 'r \<times> database) \<Rightarrow> connection \<Rightarrow> (py_error + 'r) \<times> connection" where
  "execute env stmt c =
     (let c' = c\<lparr>executed := Suc (executed c)\<rparr> in
      if executed c \<in> failing env then (Inl OperationalError, c')
      else (case stmt (working c) of
              Inl e \<Rightarrow> (Inl e, c')
            | Inr (r, db') \<Rightarrow> (Inr r, c'\<lparr>working := db'\<rparr>)))"

definition commit :: "db_env \<Rightarrow> connection \<Rightarrow> (py_error + unit) \<times> connection" where
  "commit env c =
     (let c' = c\<lparr>executed := Suc (executed c)\<rparr> in
      if executed c \<in> failing env then (Inl OperationalError, c')
      else (Inr (), c'\<lparr>committed := working c\<rparr>))"

definition rollback :: "connection \<Rightarrow> connection" where
  "rollback c = c\<lparr>working := committed c\<rparr>"

definition close :: "connection \<Rightarrow> database" where
  "close c = committed c"

subsection \<open>Binding parameters\<close>

text \<open>
  \<^verbatim>\<open>sqlite3\<close> binds \<^verbatim>\<open>None\<close>, ints (booleans are ints) and strings; an int
  outside 64 bits raises \<^verbatim>\<open>OverflowError\<close>, a list or a dictionary cannot be bound.
\<close>

definition adapt :: "py \<Rightarrow> py_error + sql_value" where
  "adapt v =
     (case v of
        PNone \<Rightarrow> Inr SNull
      | PBool b \<Rightarrow> Inr (SInt (if b then 1 else 0))
      | PInt i \<Rightarrow>
          if - 9223372036854775808 \<le> i \<and> i \<le> 9223372036854775807 then Inr (SInt i)
          else Inl OverflowError
      | PStr s \<Rightarrow> Inr (SText s)
      | PList _ \<Rightarrow> Inl InterfaceError
      | PDict _ \<Rightarrow> Inl InterfaceError)"

primrec adapt_all :: "py list \<Rightarrow> py_error + sql_value list" where
  "adapt_all [] = Inr []"
| "adapt_all (v # vs) =
     (case adapt v of
        Inl e \<Rightarrow> Inl e
      | Inr x \<Rightarrow> (case adapt_all vs of Inl e \<Rightarrow> Inl e | Inr xs \<Rightarrow> Inr (x # xs)))"

text \<open>SQL equality is true only between equal values that are not \<^verbatim>\<open>NULL\<close>.\<close>

definition sql_eq :: "sql_value \<Rightarrow> sql_value \<Rightarrow> bool" where
  "sql_eq a b = (a \<noteq> SNull \<and> b \<noteq> SNull \<and> a = b)"


subsection \<open>The statements\<close>






text \<open>
  \<^verbatim>\<open>UPDATE queries SET acknowledged = ?, acknowledged_time = ? WHERE id = ?\<close>; the
  result is \<^verbatim>\<open>cursor.rowcount\<close>, the number of rows the \<^verbatim>\<open>WHERE\<close> clause selects.
\<close>

definition set_acknowledgment :: "sql_value \<Rightarrow> sql_value \<Rightarrow> query_row \<Rightarrow> query_row" where
  "set_acknowledgment a t r = r\<lparr>q_acknowledged := a, q_acknowledged_time := t\<rparr>"

definition sql_update_by_id :: "py \<Rightarrow> py \<Rightarrow> py \<Rightarrow> database \<Rightarrow> py_error + nat \<times> database" where
  "sql_update_by_id acknowledged_param ack_time_param id_param db =
     (case queries_table db of
        None \<Rightarrow> Inl OperationalError
      | Some rows \<Rightarrow>
          (case adapt_all [acknowledged_param, ack_time_param, id_param] of
             Inl e \<Rightarrow> Inl e
           | Inr vs \<Rightarrow>
               let selected = (\<lambda>r. sql_eq (SInt (q_id r)) (vs ! 2)) in
               Inr (length (filter selected rows),
                    db\<lparr>queries_table :=
                         Some (map (\<lambda>r. if selected r then set_acknowledgment (vs ! 0) (vs ! 1) r else r)
                                 rows)\<rparr>)))"

text \<open>
  The same update with
  \<^verbatim>\<open>WHERE query_text = ? AND human_name = ? AND subscription_id = (SELECT id FROM subscriptions WHERE name = ?)\<close>.
  The scalar subquery is the key of the first subscription with that name, \<^verbatim>\<open>NULL\<close>
  when there is none.
\<close>

definition subscription_id_by_name :: "subscription_row list \<Rightarrow> sql_value \<Rightarrow> sql_value" where
  "subscription_id_by_name subs n =
     (case find (\<lambda>s. sql_eq (s_name s) n) subs of
        None \<Rightarrow> SNull
      | Some s \<Rightarrow> SInt (s_id s))"

definition sql_update_by_text ::
  "py \<Rightarrow> py \<Rightarrow> py \<Rightarrow> py \<Rightarrow> py \<Rightarrow> database \<Rightarrow> py_error + nat \<times> database" where
  "sql_update_by_text acknowledged_param ack_time_param text_param human_param sub_param db =
     (case (subscriptions_table db, queries_table db) of
        (Some subs, Some rows) \<Rightarrow>
          (case adapt_all [acknowledged_param, ack_time_param, text_param, human_param, sub_param] of
             Inl e \<Rightarrow> Inl e
           | Inr vs \<Rightarrow>
               let selected =
                     (\<lambda>r. sql_eq (q_query_text r) (vs ! 2) \<and> sql_eq (q_human_name r) (vs ! 3) \<and>
                          sql_eq (q_subscription_id r) (subscription_id_by_name subs (vs ! 4)))
               in Inr (length (filter selected rows),
                       db\<lparr>queries_table :=
                            Some (map (\<lambda>r. if selected r then set_acknowledgment (vs ! 0) (vs ! 1) r else r)
                                    rows)\<rparr>))
      | _ \<Rightarrow> Inl OperationalError)"

text \<open>
  \<^verbatim>\<open>SELECT ... FROM subscriptions s LEFT JOIN queries q ON s.id = q.subscription_id ORDER BY s.name, q.query_text\<close>.
  A subscription without queries gives one row whose query columns are \<^verbatim>\<open>NULL\<close>.
  \<^verbatim>\<open>NULL\<close> sorts first, then integers, then texts by their bytes.  SQL leaves the
  order of rows with equal sort columns open; the model keeps the order of the join.
\<close>

definition sql_sort_key :: "sql_value \<Rightarrow> nat \<times> int \<times> string" where
  "sql_sort_key v = (case v of SNull \<Rightarrow> (0, 0, []) | SInt i \<Rightarrow> (1, i, []) | SText s \<Rightarrow> (2, 0, s))"

definition joined_sort_key ::
  "subscription_row \<times> query_row option \<Rightarrow> (nat \<times> int \<times> string) \<times> (nat \<times> int \<times> string)" where
  "joined_sort_key row =
     (sql_sort_key (s_name (fst row)),
      sql_sort_key (case snd row of None \<Rightarrow> SNull | Some q \<Rightarrow> q_query_text q))"

definition left_join :: "subscription_row list \<Rightarrow> query_row list \<Rightarrow> (subscription_row \<times> query_row option) list" where
  "left_join subs qs =
     concat (map (\<lambda>s. let matching = filter (\<lambda>q. sql_eq (SInt (s_id s)) (q_subscription_id q)) qs
                       in if matching = [] then [(s, None)] else map (\<lambda>q. (s, Some q)) matching)
                 subs)"

definition sql_select_joined ::
  "database \<Rightarrow> py_error + (subscription_row \<times> query_row option) list \<times> database" where
  "sql_select_joined db =
     (case (subscriptions_table db, queries_table db) of
        (Some subs, Some qs) \<Rightarrow> Inr (sort_key joined_sort_key (left_join subs qs), db)
      | _ \<Rightarrow> Inl OperationalError)"

subsection \<open>\<open>save_subscription_data\<close>\<close>









subsection \<open>\<open>load_subscription_data\<close>\<close>

definition to_py :: "sql_value \<Rightarrow> py" where
  "to_py v = (case v of SNull \<Rightarrow> PNone | SInt i \<Rightarrow> PInt i | SText s \<Rightarrow> PStr s)"

text \<open>Python truth of a fetched value: \<^verbatim>\<open>None\<close>, 0 and the empty string are false.\<close>

definition truthy :: "sql_value \<Rightarrow> bool" where
  "truthy v = (case v of SNull \<Rightarrow> False | SInt i \<Rightarrow> i \<noteq> 0 | SText s \<Rightarrow> s \<noteq> [])"

text \<open>
  \<^verbatim>\<open>json.loads\<close> is the parameter \<open>loads\<close>, \<open>None\<close> where it raises
  \<^verbatim>\<open>JSONDecodeError\<close>; on a value that is not a string it raises \<^verbatim>\<open>TypeError\<close>.
\<close>

definition json_loads :: "(string \<Rightarrow> py option) \<Rightarrow> sql_value \<Rightarrow> py_error + py" where
  "json_loads loads v =
     (case v of
        SText s \<Rightarrow> (case loads s of None \<Rightarrow> Inl JSONDecodeError | Some x \<Rightarrow> Inr x)
      | _ \<Rightarrow> Inl TypeError)"

definition query_data :: "(string \<Rightarrow> py option) \<Rightarrow> query_row \<Rightarrow> py_error + py" where
  "query_data loads q =
     (case (if truthy (q_file_velocity_data q) then json_loads loads (q_file_velocity_data q)
            else Inr (PList [])) of
        Inl e \<Rightarrow> Inl e
      | Inr velocity \<Rightarrow>
          Inr (PDict
            [(''id'', PInt (q_id q)),
             (''query_text'', to_py (q_query_text q)),
             (''human_name'', to_py (q_human_name q)),
             (''display_name'', to_py (q_display_name q)),
             (''last_check_time'', to_py (q_last_check_time q)),
             (''next_check_time'', to_py (q_next_check_time q)),
             (''next_check_status'', to_py (q_next_check_status q)),
             (''paused'', PBool (truthy (q_paused q))),
             (''dead'', PBool (truthy (q_dead q))),
             (''checking_now'', PBool (truthy (q_checking_now q))),
             (''can_check_now'', PBool (truthy (q_can_check_now q))),
             (''checker_status'', to_py (q_checker_status q)),
             (''file_velocity'', velocity),
             (''file_seed_cache_status'', to_py (q_file_seed_cache_status q)),
             (''last_file_time'', to_py (q_last_file_time q)),
             (''acknowledged'',
                PBool (if q_acknowledged q \<noteq> SNull then truthy (q_acknowledged q) else False)),
             (''acknowledged_time'',
                if q_acknowledged_time q \<noteq> SNull then to_py (q_acknowledged_time q) else PInt 0)]))"

text \<open>
  \<open>subscriptions_dict\<close>, keyed by the subscription's id in order of first appearance;
  an entry is the name, the gug name and the list of query dictionaries.
\<close>

definition append_query :: "int \<Rightarrow> py \<Rightarrow> (int \<times> py \<times> py \<times> py list) list \<Rightarrow> (int \<times> py \<times> py \<times> py list) list" where
  "append_query sub_id d acc =
     map (\<lambda>(k, n, g, qs). if k = sub_id then (k, n, g, qs @ [d]) else (k, n, g, qs)) acc"

fun group_rows ::
  "(string \<Rightarrow> py option) \<Rightarrow> (subscription_row \<times> query_row option) list \<Rightarrow>
   (int \<times> py \<times> py \<times> py list) list \<Rightarrow> py_error + (int \<times> py \<times> py \<times> py list) list" where
  "group_rows loads [] acc = Inr acc"
| "group_rows loads ((s, q) # rows) acc =
     (let acc1 = (if map_of acc (s_id s) = None
                  then acc @ [(s_id s, to_py (s_name s), to_py (s_gug_name s), [])]
                  else acc)
      in case q of
           None \<Rightarrow> group_rows loads rows acc1
         | Some qr \<Rightarrow>
             if q_query_text qr = SNull then group_rows loads rows acc1
             else (case query_data loads qr of
                     Inl e \<Rightarrow> Inl e
                   | Inr d \<Rightarrow> group_rows loads rows (append_query (s_id s) d acc1)))"

definition subscription_dict :: "int \<times> py \<times> py \<times> py list \<Rightarrow> py" where
  "subscription_dict entry =
     (case entry of (k, n, g, qs) \<Rightarrow>
        PDict [(''name'', n), (''gug_name'', g), (''queries'', PList qs)])"

definition database_error_result :: py where
  "database_error_result =
     PDict [(''subscriptions'', PList []), (''version'', PInt 80),
            (''hydrus_version'', PStr ''Database Error'')]"

text \<open>
  The connection is opened before the \<^verbatim>\<open>try\<close> block; what is raised inside the
  block is caught and replaced by the sentinel result.  Nothing is committed.
\<close>

definition load_subscription_data ::
  "(string \<Rightarrow> py option) \<Rightarrow> db_env \<Rightarrow> database \<Rightarrow> (py_error + py) \<times> database" where
  "load_subscription_data loads env db =
     (if \<not> can_connect env then (Inl OperationalError, db)
      else (case execute env sql_select_joined (connect db) of
              (Inl e, c) \<Rightarrow> (Inr database_error_result, close c)
            | (Inr rows, c) \<Rightarrow>
                (case group_rows loads rows [] of
                   Inl e \<Rightarrow> (Inr database_error_result, close c)
                 | Inr acc \<Rightarrow>
                     (Inr (PDict [(''subscriptions'', PList (map subscription_dict acc)),
                                  (''version'', PInt 80),
                                  (''hydrus_version'', PStr ''From Database'')]),
                      close c))))"

subsection \<open>Acknowledgment updates\<close>

text \<open>
  Both functions open the connection before the \<^verbatim>\<open>try\<close> block, execute one
  \<^verbatim>\<open>UPDATE\<close>, commit and return \<^verbatim>\<open>cursor.rowcount > 0\<close>; an exception inside the
  block leads to a rollback and the result \<^verbatim>\<open>False\<close>.
\<close>

definition update_with ::
  "db_env \<Rightarrow> (database \<Rightarrow> py_error + nat \<times> database) \<Rightarrow> database \<Rightarrow> (py_error + bool) \<times> database" where
  "update_with env stmt db =
     (if \<not> can_connect env then (Inl OperationalError, db)
      else (case execute env stmt (connect db) of
              (Inl e, c) \<Rightarrow> (Inr False, close (rollback c))
            | (Inr rowcount, c) \<Rightarrow>
                (case commit env c of
                   (Inl e, c') \<Rightarrow> (Inr False, close (rollback c'))
                 | (Inr _, c') \<Rightarrow> (Inr (rowcount > 0), close c'))))"

definition update_query_acknowledgment ::
  "db_env \<Rightarrow> int \<Rightarrow> bool \<Rightarrow> int \<Rightarrow> database \<Rightarrow> (py_error + bool) \<times> database" where
  "update_query_acknowledgment env id_arg ack ack_time db =
     update_with env (sql_update_by_id (PBool ack) (PInt ack_time) (PInt id_arg)) db"

definition update_queries_by_text ::
  "db_env \<Rightarrow> string \<Rightarrow> string \<Rightarrow> string \<Rightarrow> bool \<Rightarrow> int \<Rightarrow> database \<Rightarrow> (py_error + bool) \<times> database" where
  "update_queries_by_text env text_arg human_arg subscription_arg ack ack_time db =
     update_with env
       (sql_update_by_text (PBool ack) (PInt ack_time)
          (PStr text_arg) (PStr human_arg) (PStr subscription_arg)) db"

subsection \<open>Backup files and \<open>restore_from_backup\<close>\<close>

text \<open>
  A file either holds a database or something SQLite rejects (\<^verbatim>\<open>file is not a
  database\<close>); the file system maps paths to files.  A file of length zero is a
  database without relations.
\<close>

datatype stored_file = NotADatabase | DbFile database

definition empty_database :: database where
  "empty_database =
     \<lparr>subscriptions_table = None, queries_table = None, subscriptions_seq = 0, queries_seq = 0\<rparr>"

record backup_info =
  compatible :: bool
  subscription_count :: nat
  query_count :: nat

definition incompatible_info :: backup_info where
  "incompatible_info = \<lparr>compatible = False, subscription_count = 0, query_count = 0\<rparr>"

text \<open>
  \<^verbatim>\<open>SELECT name FROM sqlite_master WHERE type='table'\<close>, as far as the two relations
  are concerned, and the two \<^verbatim>\<open>COUNT(*)\<close> statements.
\<close>

definition sql_table_names :: "database \<Rightarrow> py_error + string list \<times> database" where
  "sql_table_names db =
     Inr ((if subscriptions_table db \<noteq> None then [''subscriptions''] else []) @
          (if queries_table db \<noteq> None then [''queries''] else []), db)"

definition sql_count_subscriptions :: "database \<Rightarrow> py_error + nat \<times> database" where
  "sql_count_subscriptions db =
     (case subscriptions_table db of
        None \<Rightarrow> Inl OperationalError
      | Some rows \<Rightarrow> Inr (length rows, db))"

definition sql_count_queries :: "database \<Rightarrow> py_error + nat \<times> database" where
  "sql_count_queries db =
     (case queries_table db of
        None \<Rightarrow> Inl OperationalError
      | Some rows \<Rightarrow> Inr (length rows, db))"

text \<open>
  \<open>_get_backup_info\<close> does everything inside its \<^verbatim>\<open>try\<close> block, the connection
  included, and answers any exception with the incompatible record.  Connecting to a path
  that does not exist creates an empty database file there.
\<close>

definition get_backup_info ::
  "db_env \<Rightarrow> (string \<rightharpoonup> stored_file) \<Rightarrow> string \<Rightarrow> backup_info \<times> (string \<rightharpoonup> stored_file)" where
  "get_backup_info env fs backup_path =
     (if \<not> can_connect env then (incompatible_info, fs)
      else (case fs backup_path of
              None \<Rightarrow> (incompatible_info, fs(backup_path \<mapsto> DbFile empty_database))
            | Some NotADatabase \<Rightarrow> (incompatible_info, fs)
            | Some (DbFile db) \<Rightarrow>
                (case execute env sql_table_names (connect db) of
                   (Inl e, c1) \<Rightarrow> (incompatible_info, fs)
                 | (Inr tables, c1) \<Rightarrow>
                     if ''subscriptions'' \<in> set tables \<and> ''queries'' \<in> set tables
                     then (case execute env sql_count_subscriptions c1 of
                             (Inl e, c2) \<Rightarrow> (incompatible_info, fs)
                           | (Inr sc, c2) \<Rightarrow>
                               (case execute env sql_count_queries c2 of
                                  (Inl e, c3) \<Rightarrow> (incompatible_info, fs)
                                | (Inr qc, c3) \<Rightarrow>
                                    (\<lparr>compatible = True, subscription_count = sc, query_count = qc\<rparr>,
                                     fs)))
                     else (\<lparr>compatible = False, subscription_count = 0, query_count = 0\<rparr>, fs))))"

text \<open>
  \<^verbatim>\<open>shutil.copy2(src, dst)\<close> raises when the source is missing or source and
  destination are the same file.  The environment may make it fail otherwise, before it
  has written or after it has started to write the destination.
\<close>

datatype copy_fault = NoFault | FailsBeforeWriting | FailsWhileWriting

definition shutil_copy2 ::
  "copy_fault \<Rightarrow> string \<Rightarrow> string \<Rightarrow> (string \<rightharpoonup> stored_file) \<Rightarrow> (py_error + unit) \<times> (string \<rightharpoonup> stored_file)" where
  "shutil_copy2 fault src dst fs =
     (case fs src of
        None \<Rightarrow> (Inl FileNotFoundError, fs)
      | Some f \<Rightarrow>
          if src = dst then (Inl SameFileError, fs)
          else (case fault of
                  NoFault \<Rightarrow> (Inr (), fs(dst \<mapsto> f))
                | FailsBeforeWriting \<Rightarrow> (Inl OSError, fs)
                | FailsWhileWriting \<Rightarrow> (Inl OSError, fs(dst \<mapsto> NotADatabase))))"

record restore_env =
  inspect_env :: db_env
  safety_copy :: copy_fault
  restore_copy :: copy_fault

text \<open>
  The class defines \<open>restore_from_backup\<close> twice; the second definition replaces the
  first and is the one modelled.  It re-raises what it catches.  \<open>timestamp\<close> is the
  formatted clock reading in the name of the safety copy.
\<close>

definition restore_backup_path :: "string \<Rightarrow> string \<Rightarrow> string" where
  "restore_backup_path db_path timestamp = db_path @ ''.restore_backup_'' @ timestamp"

definition restore_from_backup ::
  "restore_env \<Rightarrow> string \<Rightarrow> string \<Rightarrow> string \<Rightarrow> (string \<rightharpoonup> stored_file) \<Rightarrow>
   (py_error + bool) \<times> (string \<rightharpoonup> stored_file)" where
  "restore_from_backup env db_path timestamp backup_path fs =
     (if fs backup_path = None then (Inl FileNotFoundError, fs)
      else (case get_backup_info (inspect_env env) fs backup_path of
              (info, fs1) \<Rightarrow>
                if \<not> compatible info then (Inl ValueError, fs1)
                else (let current_backup = restore_backup_path db_path timestamp in
                      case shutil_copy2 (safety_copy env) db_path current_backup fs1 of
                        (Inl e, fs2) \<Rightarrow> (Inl e, fs2)
                      | (Inr _, fs2) \<Rightarrow>
                          (case shutil_copy2 (restore_copy env) backup_path db_path fs2 of
                             (Inl e, fs3) \<Rightarrow> (Inl e, fs3)
                           | (Inr _, fs3) \<Rightarrow> (Inr True, fs3)))))"

section \<open>Stored payloads and the acknowledgment invariant\<close>





section \<open>Properties of the float model\<close>

lemma round_half_even_of_int: "round_half_even (of_int n) = n"
  by (simp add: round_half_even_def)

lemma round_half_even_range:
  "of_int (round_half_even r) \<le> r + 1 / 2 \<and> r - 1 / 2 \<le> of_int (round_half_even r)"
  unfolding round_half_even_def Let_def
  by (auto; linarith)

lemma round_half_even_mono:
  assumes "a \<le> b"
  shows "round_half_even a \<le> round_half_even b"
proof -
  have fl: "\<lfloor>a\<rfloor> \<le> \<lfloor>b\<rfloor>" using assms by (rule floor_mono)
  show ?thesis
  proof (cases "\<lfloor>a\<rfloor> = \<lfloor>b\<rfloor>")
    case True
    then have "a - of_int \<lfloor>a\<rfloor> \<le> b - of_int \<lfloor>b\<rfloor>" using assms by simp
    then show ?thesis using True
      unfolding round_half_even_def Let_def by auto
  next
    case False
    then have lt: "\<lfloor>a\<rfloor> + 1 \<le> \<lfloor>b\<rfloor>" using fl by linarith
    have "round_half_even a \<le> \<lfloor>a\<rfloor> + 1"
      unfolding round_half_even_def Let_def by auto
    moreover have "\<lfloor>b\<rfloor> \<le> round_half_even b"
      unfolding round_half_even_def Let_def by auto
    ultimately show ?thesis using lt by linarith
  qed
qed

lemma float_exponent_bounds:
  assumes "0 < x"
  shows "2 powi (float_exponent x) \<le> x \<and> x < 2 powi (float_exponent x + 1)"
proof -
  obtain p q where pq: "quotient_of x = (p, q)" by (cases "quotient_of x")
  have q: "0 < q" using pq by (rule quotient_of_denom_pos)
  have x: "x = of_int p / of_int q" using pq by (rule quotient_of_div)
  have p: "0 < p" using assms q x by (simp add: zero_less_divide_iff)
  define bp where "bp = bitlen p"
  define bq where "bq = bitlen q"
  have bp1: "1 \<le> bp" using p bitlen_eq_zero_iff[of p] bitlen_nonneg[of p] by (simp add: bp_def)
  have bq1: "1 \<le> bq" using q bitlen_eq_zero_iff[of q] bitlen_nonneg[of q] by (simp add: bq_def)
  have pb: "2 ^ nat (bp - 1) \<le> p \<and> p < 2 ^ nat bp"
    using bitlen_bounds[OF p] by (simp add: bp_def)
  have qb: "2 ^ nat (bq - 1) \<le> q \<and> q < 2 ^ nat bq"
    using bitlen_bounds[OF q] by (simp add: bq_def)
  have pr: "(2::rat) powi (bp - 1) \<le> of_int p \<and> of_int p < (2::rat) powi bp"
  proof -
    have "(of_int (2 ^ nat (bp - 1)) :: rat) \<le> of_int p \<and> (of_int p :: rat) < of_int (2 ^ nat bp)"
      using pb by (simp only: of_int_le_iff of_int_less_iff)
    then show ?thesis using bp1 by (simp add: power_int_nonneg_exp)
  qed
  have qr: "(2::rat) powi (bq - 1) \<le> of_int q \<and> of_int q < (2::rat) powi bq"
  proof -
    have "(of_int (2 ^ nat (bq - 1)) :: rat) \<le> of_int q \<and> (of_int q :: rat) < of_int (2 ^ nat bq)"
      using qb by (simp only: of_int_le_iff of_int_less_iff)
    then show ?thesis using bq1 by (simp add: power_int_nonneg_exp)
  qed
  have qpos: "(0::rat) < of_int q" using q by simp
  have lower: "(2::rat) powi (bp - bq - 1) \<le> x"
  proof -
    have "(2::rat) powi (bp - bq - 1) * of_int q \<le> 2 powi (bp - bq - 1) * 2 powi bq"
      using qr by (intro mult_left_mono) auto
    also have "\<dots> = 2 powi (bp - 1)"
      by (simp add: power_int_add[symmetric])
    also have "\<dots> \<le> of_int p" using pr by simp
    finally show ?thesis using qpos by (simp add: x pos_le_divide_eq)
  qed
  have upper: "x < (2::rat) powi (bp - bq + 1)"
  proof -
    have "of_int p < (2::rat) powi bp" using pr by simp
    also have "\<dots> = 2 powi (bp - bq + 1) * 2 powi (bq - 1)"
      by (simp add: power_int_add[symmetric])
    also have "\<dots> \<le> 2 powi (bp - bq + 1) * of_int q"
      using qr by (intro mult_left_mono) auto
    finally show ?thesis using qpos by (simp add: x pos_divide_less_eq)
  qed
  show ?thesis
  proof (cases "(2::rat) powi (bp - bq) \<le> x")
    case True
    then have "float_exponent x = bp - bq"
      by (simp add: float_exponent_def pq bp_def bq_def)
    then show ?thesis using True upper by simp
  next
    case False
    then have "float_exponent x = bp - bq - 1"
      by (simp add: float_exponent_def pq bp_def bq_def)
    then show ?thesis using False lower by simp
  qed
qed

lemma float_exponent_le:
  assumes "0 < x" "x \<le> y"
  shows "float_exponent x \<le> float_exponent y"
proof (rule ccontr)
  assume "\<not> float_exponent x \<le> float_exponent y"
  then have "float_exponent y + 1 \<le> float_exponent x" by simp
  then have "(2::rat) powi (float_exponent y + 1) \<le> 2 powi (float_exponent x)"
    by (intro power_int_increasing) auto
  moreover have "y < 2 powi (float_exponent y + 1)"
    using float_exponent_bounds[of y] assms by simp
  moreover have "2 powi (float_exponent x) \<le> x"
    using float_exponent_bounds[of x] assms by simp
  ultimately show False using assms by linarith
qed

lemma binary64_pos_bounds:
  assumes "0 < x"
  shows "2 powi (float_exponent x) \<le> binary64 x \<and> binary64 x \<le> 2 powi (float_exponent x + 1)"
proof -
  define e where "e = float_exponent x"
  define u :: rat where "u = 2 powi (e - 52)"
  have u: "0 < u" by (simp add: u_def zero_less_power_int)
  have b: "2 powi e \<le> x \<and> x < 2 powi (e + 1)"
    using float_exponent_bounds[OF assms] by (simp add: e_def)
  have fl: "binary64 x = of_int (round_half_even (x / u)) * u"
    using assms by (simp add: binary64_def e_def u_def Let_def)
  have e1: "(2::rat) powi e = 2 ^ 52 * u"
    by (simp add: u_def power_int_diff)
  have e2: "(2::rat) powi (e + 1) = 2 ^ 53 * u"
    by (simp add: u_def power_int_diff power_int_add)
  have lo: "of_int (2 ^ 52) \<le> x / u"
    using b u by (simp add: e1 pos_le_divide_eq)
  have hi: "x / u \<le> of_int (2 ^ 53)"
    using b u by (simp add: e2 pos_divide_le_eq)
  have "round_half_even (of_int (2 ^ 52)) \<le> round_half_even (x / u)"
    using lo by (rule round_half_even_mono)
  then have lo': "(2 ^ 52 :: rat) \<le> of_int (round_half_even (x / u))"
    unfolding round_half_even_of_int
    by (metis of_int_le_iff of_int_numeral of_int_power)
  have "round_half_even (x / u) \<le> round_half_even (of_int (2 ^ 53))"
    using hi by (rule round_half_even_mono)
  then have hi': "of_int (round_half_even (x / u)) \<le> (2 ^ 53 :: rat)"
    unfolding round_half_even_of_int
    by (metis of_int_le_iff of_int_numeral of_int_power)
  have "2 ^ 52 * u \<le> of_int (round_half_even (x / u)) * u"
    using lo' u by (intro mult_right_mono) auto
  moreover have "of_int (round_half_even (x / u)) * u \<le> 2 ^ 53 * u"
    using hi' u by (intro mult_right_mono) auto
  ultimately show ?thesis
    unfolding fl e_def[symmetric] e1 e2 by simp
qed

lemma binary64_pos_mono:
  assumes "0 < x" "x \<le> y"
  shows "binary64 x \<le> binary64 y"
proof -
  have y: "0 < y" using assms by simp
  have le: "float_exponent x \<le> float_exponent y" using assms by (rule float_exponent_le)
  show ?thesis
  proof (cases "float_exponent x = float_exponent y")
    case True
    define u :: rat where "u = 2 powi (float_exponent y - 52)"
    have u: "0 < u" by (simp add: u_def zero_less_power_int)
    have "x / u \<le> y / u" using assms u by (simp add: divide_right_mono)
    then have "round_half_even (x / u) \<le> round_half_even (y / u)"
      by (rule round_half_even_mono)
    then have "(of_int (round_half_even (x / u)) :: rat) * u \<le> of_int (round_half_even (y / u)) * u"
      using u by (intro mult_right_mono) auto
    then show ?thesis using assms y True
      by (simp add: binary64_def Let_def u_def)
  next
    case False
    then have "float_exponent x + 1 \<le> float_exponent y" using le by simp
    then have "(2::rat) powi (float_exponent x + 1) \<le> 2 powi (float_exponent y)"
      by (intro power_int_increasing) auto
    then show ?thesis
      using binary64_pos_bounds[OF assms(1)] binary64_pos_bounds[OF y] by linarith
  qed
qed

lemma binary64_minus: "binary64 (- x) = - binary64 x"
  by (simp add: binary64_def Let_def)

lemma binary64_pos: "0 < x \<Longrightarrow> 0 < binary64 x"
proof -
  assume x: "0 < x"
  have "(0::rat) < 2 powi (float_exponent x)" by (simp add: zero_less_power_int)
  then show ?thesis using binary64_pos_bounds[OF x] by linarith
qed

lemma binary64_zero: "binary64 0 = 0"
  by (simp add: binary64_def)

lemma binary64_mono:
  assumes "x \<le> y"
  shows "binary64 x \<le> binary64 y"
proof -
  consider "0 < x" | "x = 0" "y = 0" | "x = 0" "0 < y" | "x < 0" "0 \<le> y" | "x < 0" "y < 0"
    using assms by linarith
  then show ?thesis
  proof cases
    case 1
    then show ?thesis using assms by (rule binary64_pos_mono)
  next
    case 2
    then show ?thesis by simp
  next
    case 3
    then show ?thesis using binary64_pos[of y] by (simp add: binary64_zero)
  next
    case 4
    have "0 < binary64 (- x)" using 4 by (intro binary64_pos) simp
    then have "binary64 x < 0" by (simp add: binary64_minus)
    moreover have "0 \<le> binary64 y"
      using 4 binary64_pos[of y] by (cases "y = 0") (auto simp: binary64_zero)
    ultimately show ?thesis by linarith
  next
    case 5
    have "binary64 (- y) \<le> binary64 (- x)"
      using 5 assms by (intro binary64_pos_mono) auto
    then show ?thesis by (simp add: binary64_minus)
  qed
qed

lemma py_int_mono:
  assumes "x \<le> y"
  shows "py_int x \<le> py_int y"
proof (cases "0 \<le> x")
  case True
  then show ?thesis using assms by (simp add: py_int_def floor_mono)
next
  case False
  show ?thesis
  proof (cases "0 \<le> y")
    case True
    have "\<lceil>x\<rceil> \<le> 0" using False by (simp add: ceiling_le_zero)
    moreover have "0 \<le> \<lfloor>y\<rfloor>" using True by simp
    ultimately have "\<lceil>x\<rceil> \<le> \<lfloor>y\<rfloor>" by (rule order_trans)
    then show ?thesis using False True by (simp add: py_int_def)
  next
    case False
    then show ?thesis using assms \<open>\<not> 0 \<le> x\<close> by (simp add: py_int_def ceiling_mono)
  qed
qed

section \<open>Ranking\<close>

lemma sort_key_fn_cases:
  "sort_key_fn (n, q) =
     (if acknowledged q then (2, last_file_time q)
      else if last_file_time q = 0 then (1, 0) else (0, last_file_time q))"
  by (simp add: sort_key_fn_def)


text \<open>
  C2.  Whenever data is loaded, \<open>get_all_queries_sorted\<close> returns the collected
  (subscription name, query) pairs sorted ascending by the composite key, as a permutation
  of the input that keeps the input order among equal keys.  The key is
  \<open>(0, last_file_time)\<close> for an unacknowledged query with \<open>last_file_time > 0\<close>,
  the constant \<open>(1, 0)\<close> for an unacknowledged query with \<open>last_file_time = 0\<close> and
  \<open>(2, last_file_time)\<close> for an acknowledged query.  The queries A (unacknowledged,
  100), B (unacknowledged, 0), C (acknowledged, 50), D (unacknowledged, 10) come out as
  D, A, B, C.
\<close>

theorem get_all_queries_sorted_tiers:
  "subscription_data c = Some sd \<Longrightarrow>
     sorted (map sort_key_fn (get_all_queries_sorted c)) \<and>
     mset (get_all_queries_sorted c) = mset (all_queries c) \<and>
     (\<forall>k. filter (\<lambda>it. sort_key_fn it = k) (get_all_queries_sorted c) =
          filter (\<lambda>it. sort_key_fn it = k) (all_queries c)) \<and>
     (\<forall>n q. (\<not> acknowledged q \<and> last_file_time q > 0 \<longrightarrow> sort_key_fn (n, q) = (0, last_file_time q)) \<and>
            (\<not> acknowledged q \<and> last_file_time q = 0 \<longrightarrow> sort_key_fn (n, q) = (1, 0)) \<and>
            (acknowledged q \<longrightarrow> sort_key_fn (n, q) = (2, last_file_time q))) \<and>
     (\<forall>A B C D n g.
        \<not> acknowledged A \<and> last_file_time A = 100 \<and>
        \<not> acknowledged B \<and> last_file_time B = 0 \<and>
        acknowledged C \<and> last_file_time C = 50 \<and>
        \<not> acknowledged D \<and> last_file_time D = 10 \<and>
        subscriptions sd = [\<lparr>name = n, gug_name = g, queries = [A, B, C, D]\<rparr>] \<and>
        current_filter c = None \<longrightarrow>
        get_all_queries_sorted c = [(n, D), (n, A), (n, B), (n, C)])"
proof (intro conjI allI impI)
  assume sd: "subscription_data c = Some sd"
  show "sorted (map sort_key_fn (get_all_queries_sorted c))"
    using sd by (simp add: get_all_queries_sorted_def)
  show "mset (get_all_queries_sorted c) = mset (all_queries c)"
    using sd by (simp add: get_all_queries_sorted_def)
  show "filter (\<lambda>it. sort_key_fn it = k) (get_all_queries_sorted c) =
          filter (\<lambda>it. sort_key_fn it = k) (all_queries c)" for k
    using sd by (simp add: get_all_queries_sorted_def sort_key_stable)
next
  fix n and q :: query assume "\<not> acknowledged q \<and> last_file_time q > 0"
  then show "sort_key_fn (n, q) = (0, last_file_time q)" by (simp add: sort_key_fn_cases)
next
  fix n and q :: query assume "\<not> acknowledged q \<and> last_file_time q = 0"
  then show "sort_key_fn (n, q) = (1, 0)" by (simp add: sort_key_fn_cases)
next
  fix n and q :: query assume "acknowledged q"
  then show "sort_key_fn (n, q) = (2, last_file_time q)" by (simp add: sort_key_fn_cases)
next
  fix A B C D :: query and n g
  assume sd: "subscription_data c = Some sd"
  assume h: "\<not> acknowledged A \<and> last_file_time A = 100 \<and>
        \<not> acknowledged B \<and> last_file_time B = 0 \<and>
        acknowledged C \<and> last_file_time C = 50 \<and>
        \<not> acknowledged D \<and> last_file_time D = 10 \<and>
        subscriptions sd = [\<lparr>name = n, gug_name = g, queries = [A, B, C, D]\<rparr>] \<and>
        current_filter c = None"
  have "all_queries c = [(n, A), (n, B), (n, C), (n, D)]"
    using sd h by (simp add: all_queries_def get_filtered_subscriptions_def)
  then show "get_all_queries_sorted c = [(n, D), (n, A), (n, B), (n, C)]"
    using sd h by (simp add: get_all_queries_sorted_def sort_key_fn_cases)
qed


theorem get_all_queries_sorted_tiers_witness:
  "let A = \<lparr>query_id = Some 1, query_text = ''q'', human_name = ''h'', display_name = ''d'',
        last_check_time = 0, next_check_time = 0, next_check_status = ''s'', paused = False,
        dead = False, checking_now = False, can_check_now = False, checker_status = 0,
        file_velocity = [], file_seed_cache_status = ''c'', last_file_time = 100,
        acknowledged = False, acknowledged_time = 0\<rparr>;
       B = A\<lparr>last_file_time := 0\<rparr>;
       C = A\<lparr>last_file_time := 50, acknowledged := True\<rparr>;
       D = A\<lparr>last_file_time := 10\<rparr>;
       sd = \<lparr>subscriptions = [\<lparr>name = ''sub'', gug_name = ''gug'', queries = [A, B, C, D]\<rparr>],
              version = 80, hydrus_version = ''From Database''\<rparr>;
       c = \<lparr>subscription_data = Some sd, current_filter = None\<rparr>
   in subscription_data c = Some sd \<and> current_filter c = None \<and>
      \<not> acknowledged A \<and> last_file_time A = 100 \<and> \<not> acknowledged B \<and> last_file_time B = 0 \<and>
      acknowledged C \<and> last_file_time C = 50 \<and> \<not> acknowledged D \<and> last_file_time D = 10 \<and>
      get_all_queries_sorted c = [(''sub'', D), (''sub'', A), (''sub'', B), (''sub'', C)] \<and>
      sort_key_fn (''sub'', A) = (0, 100) \<and> sort_key_fn (''sub'', B) = (1, 0) \<and>
      sort_key_fn (''sub'', C) = (2, 50) \<and>
      sorted (map sort_key_fn (get_all_queries_sorted c))"
proof -
  let ?A = "\<lparr>query_id = Some 1, query_text = ''q'', human_name = ''h'', display_name = ''d'',
        last_check_time = 0, next_check_time = 0, next_check_status = ''s'', paused = False,
        dead = False, checking_now = False, can_check_now = False, checker_status = 0,
        file_velocity = [], file_seed_cache_status = ''c'', last_file_time = 100,
        acknowledged = False, acknowledged_time = 0\<rparr>"
  let ?sd = "\<lparr>subscriptions = [\<lparr>name = ''sub'', gug_name = ''gug'',
                 queries = [?A, ?A\<lparr>last_file_time := 0\<rparr>,
                            ?A\<lparr>last_file_time := 50, acknowledged := True\<rparr>,
                            ?A\<lparr>last_file_time := 10\<rparr>]\<rparr>],
              version = 80, hydrus_version = ''From Database''\<rparr>"
  let ?c = "\<lparr>subscription_data = Some ?sd, current_filter = None\<rparr>"
  have h: "subscription_data ?c = Some ?sd" by simp
  from get_all_queries_sorted_tiers[OF h] show ?thesis
    by (simp add: Let_def)
qed

section \<open>Colouring\<close>

text \<open>
  C4.  The colour of a row is given by the first matching rule, in this order:
  acknowledged with \<open>acknowledged_time\<close> zero or later than \<open>now\<close>; dead; paused;
  \<open>last_file_time = 0\<close>; \<open>min_time = max_time\<close>; otherwise the age gradient.  Two
  queries that agree on \<open>last_file_time\<close>, \<open>acknowledged\<close>, \<open>acknowledged_time\<close>,
  \<open>dead\<close> and \<open>paused\<close> get the same colour for the same \<open>now\<close>, \<open>min_time\<close>
  and \<open>max_time\<close>.
\<close>

theorem final_color_first_match:
  "final_color q now min_time max_time =
     (if acknowledged q \<and> (acknowledged_time q = 0 \<or> acknowledged_time q > now)
        then QColor 200 255 200
      else if dead q then QColor 255 200 200
      else if paused q then QColor 230 230 230
      else if last_file_time q = 0 then QColor 240 240 240
      else if min_time = max_time then QColor 255 220 180
      else QColor 255
             (py_int (float_sub 240 (float_mul (age_ratio (last_file_time q) min_time max_time) 100)))
             (py_int (float_sub 200 (float_mul (age_ratio (last_file_time q) min_time max_time) 140)))) \<and>
   (\<forall>q' :: query. last_file_time q' = last_file_time q \<and> acknowledged q' = acknowledged q \<and>
         acknowledged_time q' = acknowledged_time q \<and> dead q' = dead q \<and> paused q' = paused q
         \<longrightarrow> final_color q' now min_time max_time = final_color q now min_time max_time)"
proof (intro conjI allI impI)
  show "final_color q now min_time max_time =
     (if acknowledged q \<and> (acknowledged_time q = 0 \<or> acknowledged_time q > now)
        then QColor 200 255 200
      else if dead q then QColor 255 200 200
      else if paused q then QColor 230 230 230
      else if last_file_time q = 0 then QColor 240 240 240
      else if min_time = max_time then QColor 255 220 180
      else QColor 255
             (py_int (float_sub 240 (float_mul (age_ratio (last_file_time q) min_time max_time) 100)))
             (py_int (float_sub 200 (float_mul (age_ratio (last_file_time q) min_time max_time) 140))))"
    by (simp add: final_color_def get_status_color_def get_color_for_age_def Let_def)
next
  fix q' :: query
  assume "last_file_time q' = last_file_time q \<and> acknowledged q' = acknowledged q \<and>
         acknowledged_time q' = acknowledged_time q \<and> dead q' = dead q \<and> paused q' = paused q"
  then show "final_color q' now min_time max_time = final_color q now min_time max_time"
    by (auto simp add: final_color_def get_status_color_def)
qed

theorem final_color_first_match_witness:
  "let q = \<lparr>query_id = Some 1, query_text = ''q'', human_name = ''h'', display_name = ''d'',
        last_check_time = 0, next_check_time = 0, next_check_status = ''s'', paused = False,
        dead = False, checking_now = False, can_check_now = False, checker_status = 0,
        file_velocity = [], file_seed_cache_status = ''c'', last_file_time = 100,
        acknowledged = False, acknowledged_time = 0\<rparr>;
       q' = q\<lparr>query_text := ''other'', query_id := Some 2\<rparr>
   in last_file_time q' = last_file_time q \<and> acknowledged q' = acknowledged q \<and>
      acknowledged_time q' = acknowledged_time q \<and> dead q' = dead q \<and> paused q' = paused q \<and>
      final_color q' 1000 50 200 = final_color q 1000 50 200 \<and>
      final_color q 1000 50 200 =
        QColor 255
          (py_int (float_sub 240 (float_mul (age_ratio 100 50 200) 100)))
          (py_int (float_sub 200 (float_mul (age_ratio 100 50 200) 140))) \<and>
      final_color q 1000 50 200 = QColor 255 173 106"
proof -
  let ?q = "\<lparr>query_id = Some 1, query_text = ''q'', human_name = ''h'', display_name = ''d'',
        last_check_time = 0, next_check_time = 0, next_check_status = ''s'', paused = False,
        dead = False, checking_now = False, can_check_now = False, checker_status = 0,
        file_velocity = [], file_seed_cache_status = ''c'', last_file_time = 100,
        acknowledged = False, acknowledged_time = 0\<rparr>"
  have v: "final_color ?q 1000 50 200 = QColor 255 173 106" by code_simp
  from final_color_first_match[of ?q 1000 50 200] v show ?thesis
    by (simp add: Let_def)
qed

lemma binary64_small_ints:
  "binary64 1 = 1" "binary64 60 = 60" "binary64 100 = 100" "binary64 140 = 140"
  "binary64 200 = 200" "binary64 240 = 240"
  by code_simp+

lemma age_ratio_antimono:
  assumes "min_time < max_time" "l1 \<le> l2"
  shows "age_ratio l2 min_time max_time \<le> age_ratio l1 min_time max_time"
proof -
  have d: "(0::rat) < of_int (max_time - min_time)" using assms(1) by simp
  have "(of_int (max_time - l2) :: rat) \<le> of_int (max_time - l1)" using assms(2) by simp
  then have "(of_int (max_time - l2) :: rat) / of_int (max_time - min_time)
                \<le> of_int (max_time - l1) / of_int (max_time - min_time)"
    using d by (intro divide_right_mono) auto
  then show ?thesis
    unfolding age_ratio_def py_truediv_def by (rule binary64_mono)
qed

lemma age_ratio_at_max: "age_ratio max_time min_time max_time = 0"
  by (simp add: age_ratio_def py_truediv_def binary64_zero)

lemma age_ratio_at_min: "min_time \<noteq> max_time \<Longrightarrow> age_ratio min_time min_time max_time = 1"
  by (simp add: age_ratio_def py_truediv_def binary64_small_ints)

lemma age_ratio_unit_interval:
  assumes "min_time < max_time" "min_time \<le> l" "l \<le> max_time"
  shows "0 \<le> age_ratio l min_time max_time \<and> age_ratio l min_time max_time \<le> 1"
  using age_ratio_antimono[OF assms(1,3)] age_ratio_antimono[OF assms(1,2)] assms(1)
  by (simp add: age_ratio_at_max age_ratio_at_min)

lemma channel_antimono:
  assumes "r2 \<le> r1" "0 \<le> k"
  shows "py_int (float_sub c (float_mul r1 k)) \<le> py_int (float_sub c (float_mul r2 k))"
proof -
  have "r2 * k \<le> r1 * k" using assms by (rule mult_right_mono)
  then have "float_mul r2 k \<le> float_mul r1 k"
    unfolding float_mul_def by (rule binary64_mono)
  then have "c - float_mul r1 k \<le> c - float_mul r2 k" by simp
  then have "float_sub c (float_mul r1 k) \<le> float_sub c (float_mul r2 k)"
    unfolding float_sub_def by (rule binary64_mono)
  then show ?thesis by (rule py_int_mono)
qed

lemma get_color_for_age_mono:
  assumes "min_time < max_time" "l1 \<le> l2" "l1 \<noteq> 0" "l2 \<noteq> 0"
  shows "green (get_color_for_age l1 min_time max_time) \<le> green (get_color_for_age l2 min_time max_time)"
    and "blue (get_color_for_age l1 min_time max_time) \<le> blue (get_color_for_age l2 min_time max_time)"
  using assms channel_antimono[OF age_ratio_antimono[OF assms(1,2)]]
  by (simp_all add: get_color_for_age_def Let_def)

lemma get_color_for_age_at_max:
  "min_time \<noteq> max_time \<Longrightarrow> max_time \<noteq> 0 \<Longrightarrow> get_color_for_age max_time min_time max_time = QColor 255 240 200"
  by (simp add: get_color_for_age_def age_ratio_at_max float_mul_def float_sub_def binary64_zero
      binary64_small_ints py_int_def)

lemma get_color_for_age_at_min:
  "min_time \<noteq> max_time \<Longrightarrow> min_time \<noteq> 0 \<Longrightarrow> get_color_for_age min_time min_time max_time = QColor 255 140 60"
  by (simp add: get_color_for_age_def age_ratio_at_min float_mul_def float_sub_def
      binary64_small_ints py_int_def)

lemma valid_times_pos: "t \<in> set (valid_times qs) \<Longrightarrow> 0 < t"
  by (auto simp: valid_times_def)

lemma time_bounds_cases:
  assumes "time_bounds qs = (min_time, max_time)"
  shows "(min_time = 0 \<and> max_time = 0) \<or> (0 < min_time \<and> min_time \<le> max_time)"
proof (cases "valid_times qs = []")
  case True
  then show ?thesis using assms by (simp add: time_bounds_def)
next
  case False
  then have mm: "min_time = Min (set (valid_times qs))" "max_time = Max (set (valid_times qs))"
    using assms by (simp_all add: time_bounds_def Let_def)
  have ne: "set (valid_times qs) \<noteq> {}" using False by simp
  have "min_time \<in> set (valid_times qs)" unfolding mm using ne by (intro Min_in) auto
  then have "0 < min_time" by (rule valid_times_pos)
  moreover have "min_time \<le> max_time" unfolding mm using ne by (intro Min_le Max_in) auto
  ultimately show ?thesis by simp
qed


text \<open>
  C6.  Take two unacknowledged, non-dead, non-paused queries whose \<open>last_file_time\<close>
  values lie in \<open>[min_time, max_time]\<close>, where either \<open>min_time\<close> and \<open>max_time\<close>
  are the bounds \<open>populate_queries\<close> computes from some displayed list, or both values
  are not zero (so that neither row takes the neutral colour of rule 4).  Then the older
  one has green and blue channels that are at most those of the newer one; and when
  \<open>min_time \<noteq> max_time\<close> the colour at \<open>min_time\<close> is strictly smaller in both
  channels than the colour at \<open>max_time\<close>.
\<close>

theorem gradient_monotone:
  fixes q1 q2 :: query
  assumes "time_bounds qs = (min_time, max_time) \<or>
           (last_file_time q1 \<noteq> 0 \<and> last_file_time q2 \<noteq> 0)"
    and "\<not> acknowledged q1" "\<not> dead q1" "\<not> paused q1"
    and "\<not> acknowledged q2" "\<not> dead q2" "\<not> paused q2"
    and "min_time \<le> last_file_time q1" "last_file_time q1 \<le> last_file_time q2"
        "last_file_time q2 \<le> max_time"
  shows "green (final_color q1 now min_time max_time) \<le> green (final_color q2 now min_time max_time) \<and>
         blue (final_color q1 now min_time max_time) \<le> blue (final_color q2 now min_time max_time) \<and>
         (min_time \<noteq> max_time \<and> last_file_time q1 = min_time \<and> last_file_time q2 = max_time \<longrightarrow>
            green (final_color q1 now min_time max_time) < green (final_color q2 now min_time max_time) \<and>
            blue (final_color q1 now min_time max_time) < blue (final_color q2 now min_time max_time))"
proof -
  have f1: "final_color q1 now min_time max_time = get_color_for_age (last_file_time q1) min_time max_time"
    using assms(2-4) by (simp add: final_color_def get_status_color_def)
  have f2: "final_color q2 now min_time max_time = get_color_for_age (last_file_time q2) min_time max_time"
    using assms(5-7) by (simp add: final_color_def get_status_color_def)
  have le: "min_time \<le> max_time" using assms(8-10) by simp
  have gradient: ?thesis if nz: "last_file_time q1 \<noteq> 0" "last_file_time q2 \<noteq> 0"
  proof (cases "min_time = max_time")
    case True
    then show ?thesis unfolding f1 f2 using nz by (simp add: get_color_for_age_def)
  next
    case False
    then have lt: "min_time < max_time" using le by simp
    show ?thesis
      unfolding f1 f2
      using get_color_for_age_mono[OF lt assms(9) nz] False nz
      by (auto simp: get_color_for_age_at_max get_color_for_age_at_min)
  qed
  from assms(1) show ?thesis
  proof
    assume tb: "time_bounds qs = (min_time, max_time)"
    from time_bounds_cases[OF tb] show ?thesis
    proof
      assume z: "min_time = 0 \<and> max_time = 0"
      then have "last_file_time q1 = 0" "last_file_time q2 = 0" using assms(8-10) by auto
      then show ?thesis unfolding f1 f2 using z by (simp add: get_color_for_age_def)
    next
      assume p: "0 < min_time \<and> min_time \<le> max_time"
      then have "last_file_time q1 \<noteq> 0" "last_file_time q2 \<noteq> 0" using assms(8-10) by auto
      then show ?thesis by (rule gradient)
    qed
  next
    assume "last_file_time q1 \<noteq> 0 \<and> last_file_time q2 \<noteq> 0"
    then show ?thesis using gradient by simp
  qed
qed

theorem gradient_monotone_witness:
  "let A = \<lparr>query_id = Some 1, query_text = ''q'', human_name = ''h'', display_name = ''d'',
             last_check_time = 0, next_check_time = 0, next_check_status = ''s'',
             paused = False, dead = False, checking_now = False, can_check_now = False,
             checker_status = 0, file_velocity = [], file_seed_cache_status = ''c'',
             last_file_time = 100, acknowledged = False, acknowledged_time = 0\<rparr>;
       B = A\<lparr>last_file_time := 200\<rparr>;
       qs = [(''sub'', A), (''sub'', B)]
   in time_bounds qs = (100, 200) \<and>
      \<not> acknowledged A \<and> \<not> dead A \<and> \<not> paused A \<and>
      \<not> acknowledged B \<and> \<not> dead B \<and> \<not> paused B \<and>
      100 \<le> last_file_time A \<and> last_file_time A \<le> last_file_time B \<and> last_file_time B \<le> 200 \<and>
      final_color A 1000 100 200 = QColor 255 140 60 \<and>
      final_color B 1000 100 200 = QColor 255 240 200 \<and>
      green (final_color A 1000 100 200) < green (final_color B 1000 100 200) \<and>
      blue (final_color A 1000 100 200) < blue (final_color B 1000 100 200)"
proof -
  let ?A = "\<lparr>query_id = Some 1, query_text = ''q'', human_name = ''h'', display_name = ''d'',
             last_check_time = 0, next_check_time = 0, next_check_status = ''s'',
             paused = False, dead = False, checking_now = False, can_check_now = False,
             checker_status = 0, file_velocity = [], file_seed_cache_status = ''c'',
             last_file_time = 100, acknowledged = False, acknowledged_time = 0\<rparr>"
  let ?B = "?A\<lparr>last_file_time := 200\<rparr>"
  let ?qs = "[(''sub'', ?A), (''sub'', ?B)]"
  have tb: "time_bounds ?qs = (100, 200)"
    by (simp add: time_bounds_def valid_times_def)
  have a: "final_color ?A 1000 100 200 = QColor 255 140 60" by code_simp
  have b: "final_color ?B 1000 100 200 = QColor 255 240 200" by code_simp
  from gradient_monotone[of ?qs 100 200 ?A ?B 1000] tb
  have "green (final_color ?A 1000 100 200) < green (final_color ?B 1000 100 200) \<and>
        blue (final_color ?A 1000 100 200) < blue (final_color ?B 1000 100 200)"
    by simp
  then show ?thesis
    unfolding Let_def using tb a b by simp
qed


text \<open>
  C5.  The bounds are taken over exactly the rows that are unacknowledged and have a
  positive \<open>last_file_time\<close> (\<open>valid_times\<close>), and a row inside the bounds has an
  \<open>age_ratio\<close> in \<open>[0, 1]\<close> (\<open>age_ratio_unit_interval\<close>).  The source's comments
  state that range for every row that is coloured by the gradient (\<open>0 = newest, 1 =
  oldest\<close>, green \<open>240 -> 140\<close>, blue \<open>200 -> 60\<close>).  An acknowledged row whose
  acknowledgment has expired is not part of the domain, yet \<open>get_status_color\<close> returns
  \<open>None\<close> for it and the gradient is applied to it.  With two unacknowledged rows at
  100 and 200 and a row at 50 whose acknowledgment expired at 999, displayed at
  \<open>now = 1000\<close>, the ratio is \<open>3 / 2\<close> and the blue channel is \<open>- 10\<close>.
\<close>

theorem expired_acknowledgment_leaves_gradient_range:
  "let A = \<lparr>query_id = Some 1, query_text = ''q'', human_name = ''h'', display_name = ''d'',
        last_check_time = 0, next_check_time = 0, next_check_status = ''s'', paused = False,
        dead = False, checking_now = False, can_check_now = False, checker_status = 0,
        file_velocity = [], file_seed_cache_status = ''c'', last_file_time = 100,
        acknowledged = False, acknowledged_time = 0\<rparr>;
       B = A\<lparr>last_file_time := 200\<rparr>;
       C = A\<lparr>last_file_time := 50, acknowledged := True, acknowledged_time := 999\<rparr>;
       qs = [(''sub'', C), (''sub'', A), (''sub'', B)]
   in time_bounds qs = (100, 200) \<and>
      get_status_color C (acknowledged_time C) 1000 = None \<and>
      age_ratio (last_file_time C) 100 200 = 3 / 2 \<and>
      populate_queries qs 1000 = [QColor 255 90 (- 10), QColor 255 140 60, QColor 255 240 200]"
  by code_simp

section \<open>Ingestion\<close>



















section \<open>Restore\<close>

lemma get_backup_info_existing:
  "fs p \<noteq> None \<Longrightarrow> snd (get_backup_info e fs p) = fs"
  by (auto simp: get_backup_info_def split: option.splits stored_file.splits prod.splits sum.splits)

lemma get_backup_info_compatible:
  assumes "compatible (fst (get_backup_info e fs p))"
  shows "\<exists>db. fs p = Some (DbFile db) \<and> subscriptions_table db \<noteq> None \<and> queries_table db \<noteq> None"
  using assms
  by (auto simp: get_backup_info_def incompatible_info_def execute_def connect_def
      sql_table_names_def Let_def
      split: option.splits stored_file.splits prod.splits sum.splits if_splits)

lemma get_backup_info_no_fault:
  assumes "can_connect e" "failing e = {}" "fs p = Some (DbFile db)"
    "subscriptions_table db = Some srows" "queries_table db = Some qrows"
  shows "fst (get_backup_info e fs p) =
           \<lparr>compatible = True, subscription_count = length srows, query_count = length qrows\<rparr>"
  using assms
  by (simp add: get_backup_info_def execute_def connect_def sql_table_names_def
      sql_count_subscriptions_def sql_count_queries_def Let_def)

lemma restore_backup_path_neq: "restore_backup_path db_path ts \<noteq> db_path"
  by (simp add: restore_backup_path_def)

lemma restore_from_backup_existing:
  assumes "fs backup_path \<noteq> None"
  shows "restore_from_backup env db_path ts backup_path fs =
           (if \<not> compatible (fst (get_backup_info (inspect_env env) fs backup_path))
            then (Inl ValueError, fs)
            else (case shutil_copy2 (safety_copy env) db_path (restore_backup_path db_path ts) fs of
                    (Inl e, fs2) \<Rightarrow> (Inl e, fs2)
                  | (Inr _, fs2) \<Rightarrow>
                      (case shutil_copy2 (restore_copy env) backup_path db_path fs2 of
                         (Inl e, fs3) \<Rightarrow> (Inl e, fs3)
                       | (Inr _, fs3) \<Rightarrow> (Inr True, fs3))))"
proof -
  have s: "snd (get_backup_info (inspect_env env) fs backup_path) = fs"
    using assms by (simp add: get_backup_info_existing)
  obtain info where i: "get_backup_info (inspect_env env) fs backup_path = (info, fs)"
    using s by (cases "get_backup_info (inspect_env env) fs backup_path") simp
  show ?thesis using assms by (auto simp: restore_from_backup_def i Let_def)
qed

lemma restore_from_backup_missing:
  "fs backup_path = None \<Longrightarrow>
     restore_from_backup env db_path ts backup_path fs = (Inl FileNotFoundError, fs)"
  by (simp add: restore_from_backup_def)


text \<open>
  C9.  \<open>restore_from_backup\<close> raises \<open>FileNotFoundError\<close> when the target is missing
  and \<open>ValueError\<close> when the target fails the compatibility check, and in both cases
  leaves every file, the live store included, as it was.  A target passes the check only
  if it is a database with both relations, and does pass it then when inspecting it meets
  no fault.  Whenever the call changes the live store, the safety copy holds the previous
  content of the live store; when the call returns, the live store holds what the target
  held after the safety copy was made.
\<close>

theorem restore_from_backup_safety:
  "(fs backup_path = None \<longrightarrow>
      restore_from_backup env db_path ts backup_path fs = (Inl FileNotFoundError, fs)) \<and>
   (fs backup_path \<noteq> None \<and> \<not> compatible (fst (get_backup_info (inspect_env env) fs backup_path)) \<longrightarrow>
      restore_from_backup env db_path ts backup_path fs = (Inl ValueError, fs)) \<and>
   (compatible (fst (get_backup_info (inspect_env env) fs backup_path)) \<longrightarrow>
      (\<exists>db. fs backup_path = Some (DbFile db) \<and>
            subscriptions_table db \<noteq> None \<and> queries_table db \<noteq> None)) \<and>
   (\<forall>db. can_connect (inspect_env env) \<and> failing (inspect_env env) = {} \<and>
         fs backup_path = Some (DbFile db) \<and>
         subscriptions_table db \<noteq> None \<and> queries_table db \<noteq> None \<longrightarrow>
      compatible (fst (get_backup_info (inspect_env env) fs backup_path))) \<and>
   (snd (restore_from_backup env db_path ts backup_path fs) db_path \<noteq> fs db_path \<longrightarrow>
      snd (restore_from_backup env db_path ts backup_path fs) (restore_backup_path db_path ts) = fs db_path) \<and>
   (\<forall>b. fst (restore_from_backup env db_path ts backup_path fs) = Inr b \<longrightarrow>
      b \<and> snd (restore_from_backup env db_path ts backup_path fs) =
            (fs(restore_backup_path db_path ts := fs db_path))
               (db_path := (fs(restore_backup_path db_path ts := fs db_path)) backup_path))"
proof (intro conjI impI allI)
  assume "fs backup_path = None"
  then show "restore_from_backup env db_path ts backup_path fs = (Inl FileNotFoundError, fs)"
    by (rule restore_from_backup_missing)
next
  assume a: "fs backup_path \<noteq> None \<and> \<not> compatible (fst (get_backup_info (inspect_env env) fs backup_path))"
  then show "restore_from_backup env db_path ts backup_path fs = (Inl ValueError, fs)"
    by (simp add: restore_from_backup_existing)
next
  assume "compatible (fst (get_backup_info (inspect_env env) fs backup_path))"
  then show "\<exists>db. fs backup_path = Some (DbFile db) \<and>
            subscriptions_table db \<noteq> None \<and> queries_table db \<noteq> None"
    by (rule get_backup_info_compatible)
next
  fix db
  assume "can_connect (inspect_env env) \<and> failing (inspect_env env) = {} \<and>
         fs backup_path = Some (DbFile db) \<and>
         subscriptions_table db \<noteq> None \<and> queries_table db \<noteq> None"
  then show "compatible (fst (get_backup_info (inspect_env env) fs backup_path))"
    using get_backup_info_no_fault[of "inspect_env env" fs backup_path db] by auto
next
  assume ch: "snd (restore_from_backup env db_path ts backup_path fs) db_path \<noteq> fs db_path"
  show "snd (restore_from_backup env db_path ts backup_path fs) (restore_backup_path db_path ts) = fs db_path"
  proof (cases "fs backup_path = None")
    case True
    then show ?thesis using ch by (simp add: restore_from_backup_missing)
  next
    case False
    show ?thesis
      using ch restore_backup_path_neq[of db_path ts]
      unfolding restore_from_backup_existing[where fs = fs and backup_path = backup_path, OF False] shutil_copy2_def
      by (auto split: if_splits option.splits copy_fault.splits)
  qed
next
  fix b
  assume ok: "fst (restore_from_backup env db_path ts backup_path fs) = Inr b"
  have ne: "fs backup_path \<noteq> None"
  proof
    assume "fs backup_path = None"
    then show False using ok by (simp add: restore_from_backup_missing)
  qed
  have both: "b \<and> snd (restore_from_backup env db_path ts backup_path fs) =
            (fs(restore_backup_path db_path ts := fs db_path))
               (db_path := (fs(restore_backup_path db_path ts := fs db_path)) backup_path)"
    using ok restore_backup_path_neq[of db_path ts]
    unfolding restore_from_backup_existing[where fs = fs and backup_path = backup_path, OF ne] shutil_copy2_def
    by (auto split: if_splits option.splits copy_fault.splits)
  from both show b by simp
  from both show "snd (restore_from_backup env db_path ts backup_path fs) =
            (fs(restore_backup_path db_path ts := fs db_path))
               (db_path := (fs(restore_backup_path db_path ts := fs db_path)) backup_path)"
    by simp
qed

theorem restore_from_backup_safety_witness:
  "let fs = [''live.db'' \<mapsto> DbFile \<lparr>subscriptions_table = Some [\<lparr>s_id = 1,
        s_name = SText ''live'', s_gug_name = SText ''g''\<rparr>], queries_table = Some [],
        subscriptions_seq = 1, queries_seq = 0\<rparr>,
        ''good.db'' \<mapsto> DbFile \<lparr>subscriptions_table = Some [], queries_table = Some [],
        subscriptions_seq = 0, queries_seq = 0\<rparr>,
        ''old.db'' \<mapsto> DbFile \<lparr>subscriptions_table = Some [], queries_table = None,
        subscriptions_seq = 0, queries_seq = 0\<rparr>, ''text.db'' \<mapsto> NotADatabase];
       env = \<lparr>inspect_env = \<lparr>can_connect = True, failing = {}\<rparr>, safety_copy = NoFault, restore_copy = NoFault\<rparr>
   in fs ''none.db'' = None \<and>
      restore_from_backup env ''live.db'' ''20250101_120000'' ''none.db'' fs = (Inl FileNotFoundError, fs) \<and>
      fs ''old.db'' \<noteq> None \<and>
      \<not> compatible (fst (get_backup_info (inspect_env env) fs ''old.db'')) \<and>
      restore_from_backup env ''live.db'' ''20250101_120000'' ''old.db'' fs = (Inl ValueError, fs) \<and>
      restore_from_backup env ''live.db'' ''20250101_120000'' ''text.db'' fs = (Inl ValueError, fs) \<and>
      compatible (fst (get_backup_info (inspect_env env) fs ''good.db'')) \<and>
      fst (restore_from_backup env ''live.db'' ''20250101_120000'' ''good.db'' fs) = Inr True \<and>
      snd (restore_from_backup env ''live.db'' ''20250101_120000'' ''good.db'' fs) ''live.db'' \<noteq> fs ''live.db'' \<and>
      snd (restore_from_backup env ''live.db'' ''20250101_120000'' ''good.db'' fs)
        ''live.db.restore_backup_20250101_120000'' = fs ''live.db'' \<and>
      snd (restore_from_backup env ''live.db'' ''20250101_120000'' ''good.db'' fs) ''live.db'' = fs ''good.db''"
proof -
  let ?fs = "[''live.db'' \<mapsto> DbFile \<lparr>subscriptions_table = Some [\<lparr>s_id = 1,
        s_name = SText ''live'', s_gug_name = SText ''g''\<rparr>], queries_table = Some [],
        subscriptions_seq = 1, queries_seq = 0\<rparr>,
        ''good.db'' \<mapsto> DbFile \<lparr>subscriptions_table = Some [], queries_table = Some [],
        subscriptions_seq = 0, queries_seq = 0\<rparr>,
        ''old.db'' \<mapsto> DbFile \<lparr>subscriptions_table = Some [], queries_table = None,
        subscriptions_seq = 0, queries_seq = 0\<rparr>, ''text.db'' \<mapsto> NotADatabase]"
  let ?env = "\<lparr>inspect_env = \<lparr>can_connect = True, failing = {}\<rparr>, safety_copy = NoFault, restore_copy = NoFault\<rparr>"
  have none: "?fs ''none.db'' = None" by simp
  have old: "?fs ''old.db'' \<noteq> None \<and> \<not> compatible (fst (get_backup_info (inspect_env ?env) ?fs ''old.db''))"
    by (simp add: get_backup_info_def execute_def connect_def sql_table_names_def Let_def)
  have garbage: "?fs ''text.db'' \<noteq> None \<and> \<not> compatible (fst (get_backup_info (inspect_env ?env) ?fs ''text.db''))"
    by (simp add: get_backup_info_def incompatible_info_def)
  have good: "can_connect (inspect_env ?env) \<and> failing (inspect_env ?env) = {} \<and>
      ?fs ''good.db'' = Some (DbFile \<lparr>subscriptions_table = Some [], queries_table = Some [], subscriptions_seq = 0, queries_seq = 0\<rparr>) \<and>
      subscriptions_table \<lparr>subscriptions_table = Some [], queries_table = Some [],
            subscriptions_seq = 0,
            queries_seq = 0\<rparr> \<noteq> None \<and> queries_table \<lparr>subscriptions_table = Some [],
            queries_table = Some [], subscriptions_seq = 0, queries_seq = 0\<rparr> \<noteq> None"
    by simp
  have r1: "restore_from_backup ?env ''live.db'' ''20250101_120000'' ''none.db'' ?fs = (Inl FileNotFoundError, ?fs)"
    using restore_from_backup_safety[of ?fs "''none.db''" ?env "''live.db''" "''20250101_120000''"] none
    by blast
  have r2: "restore_from_backup ?env ''live.db'' ''20250101_120000'' ''old.db'' ?fs = (Inl ValueError, ?fs)"
    using restore_from_backup_safety[of ?fs "''old.db''" ?env "''live.db''" "''20250101_120000''"] old
    by blast
  have r3: "restore_from_backup ?env ''live.db'' ''20250101_120000'' ''text.db'' ?fs = (Inl ValueError, ?fs)"
    using restore_from_backup_safety[of ?fs "''text.db''" ?env "''live.db''" "''20250101_120000''"] garbage
    by blast
  have c: "compatible (fst (get_backup_info (inspect_env ?env) ?fs ''good.db''))"
    using restore_from_backup_safety[of ?fs "''good.db''" ?env "''live.db''" "''20250101_120000''"] good
    by blast
  have ok: "fst (restore_from_backup ?env ''live.db'' ''20250101_120000'' ''good.db'' ?fs) = Inr True"
    using c by (simp add: restore_from_backup_existing shutil_copy2_def restore_backup_path_def)
  have r4: "snd (restore_from_backup ?env ''live.db'' ''20250101_120000'' ''good.db'' ?fs) =
            (?fs(restore_backup_path ''live.db'' ''20250101_120000'' := ?fs ''live.db''))
               (''live.db'' := (?fs(restore_backup_path ''live.db'' ''20250101_120000'' := ?fs ''live.db'')) ''good.db'')"
    using restore_from_backup_safety[of ?fs "''good.db''" ?env "''live.db''" "''20250101_120000''"] ok
    by blast
  show ?thesis
    unfolding Let_def
    using none old r1 r2 r3 c ok
    by (simp add: r4 restore_backup_path_def)
qed

section \<open>Acknowledgment updates\<close>
















section \<open>Loading\<close>

lemma load_subscription_data_store:
  "snd (load_subscription_data loads env db) = db"
  by (auto simp: load_subscription_data_def execute_def connect_def close_def Let_def
      split: sum.splits prod.splits)

lemma load_subscription_data_connected:
  assumes "can_connect env"
  shows "\<exists>r. load_subscription_data loads env db = (Inr r, db) \<and>
          (0 \<in> failing env \<or> (\<exists>e. sql_select_joined db = Inl e) \<or>
           (\<exists>rows e. sql_select_joined db = Inr (rows, db) \<and> group_rows loads rows [] = Inl e)
             \<longrightarrow> r = database_error_result)"
  using assms
  by (cases "sql_select_joined db")
     (auto simp: load_subscription_data_def execute_def connect_def close_def Let_def
       sql_select_joined_def split: sum.splits prod.splits option.splits)


text \<open>
  C8.  \<open>load_subscription_data\<close> answers every exception raised inside its
  \<^verbatim>\<open>try\<close> block with the sentinel result (\<open>load_subscription_data_connected\<close>:
  once the connection is open it returns, and a failing statement or a failing
  \<^verbatim>\<open>json.loads\<close> gives the empty subscription list with \<open>Database Error\<close>).  The
  connection itself is opened before the \<^verbatim>\<open>try\<close> block: when
  \<^verbatim>\<open>sqlite3.connect\<close> fails, the exception leaves the function.
\<close>

theorem load_subscription_data_raises_when_connect_fails:
  "load_subscription_data loads \<lparr>can_connect = False, failing = F\<rparr> db = (Inl OperationalError, db)"
  by (simp add: load_subscription_data_def)


text \<open>
  C10.  Once the connection is open, \<open>update_query_acknowledgment\<close> and
  \<open>update_queries_by_text\<close> return \<open>False\<close> and leave the store as it was when the
  statement or the commit fails, and otherwise return whether the statement selected at
  least one row (\<open>update_with_cases\<close>).  Both open the connection before the
  \<^verbatim>\<open>try\<close> block: when \<^verbatim>\<open>sqlite3.connect\<close> fails, the exception leaves the
  function.
\<close>

theorem update_acknowledgment_raises_when_connect_fails:
  "update_query_acknowledgment \<lparr>can_connect = False, failing = F\<rparr> id_arg ack ack_time db =
     (Inl OperationalError, db) \<and>
   update_queries_by_text \<lparr>can_connect = False, failing = F\<rparr> text_arg human_arg subscription_arg
       ack ack_time db =
     (Inl OperationalError, db)"
  by (simp add: update_query_acknowledgment_def update_queries_by_text_def update_with_def)


section \<open>Acknowledgment expiry\<close>

lemma final_color_not_acknowledged:
  assumes "\<not> (acknowledged q \<and> (acknowledged_time q = 0 \<or> acknowledged_time q > now))"
  shows "final_color q now min_time max_time \<noteq> QColor 200 255 200"
  using assms
  by (auto simp: final_color_def get_status_color_def get_color_for_age_def Let_def)


text \<open>
  C7.  A query is acknowledgment-expired exactly if it is acknowledged, its
  \<open>acknowledged_time\<close> is not zero and is at most \<open>now\<close>.  An acknowledged query
  with \<open>acknowledged_time = now - 1\<close> does not receive the acknowledged colour, provided
  \<open>now \<noteq> 1\<close>: \<open>get_status_color\<close> does not return it and the row's colour is another
  one.  With \<open>acknowledged_time = now + 3600\<close> the query does receive it.  At
  \<open>now = 1\<close> the time \<open>now - 1\<close> is the sentinel 0, which means no expiry, and the
  query receives the acknowledged colour.  Expiry is computed from the argument \<open>now\<close>
  by functions that have no access to the store; loading leaves the store as it is, and
  no store operation takes a clock reading.
\<close>

theorem acknowledgment_expiry:
  "(is_expired_acknowledgment q now \<longleftrightarrow>
      acknowledged q \<and> acknowledged_time q \<noteq> 0 \<and> acknowledged_time q \<le> now) \<and>
   (acknowledged q \<and> acknowledged_time q = now - 1 \<and> now \<noteq> 1 \<longrightarrow>
      get_status_color q (acknowledged_time q) now \<noteq> Some (QColor 200 255 200) \<and>
      final_color q now min_time max_time \<noteq> QColor 200 255 200) \<and>
   (acknowledged q \<and> acknowledged_time q = now + 3600 \<longrightarrow>
      final_color q now min_time max_time = QColor 200 255 200) \<and>
   snd (load_subscription_data loads env db) = db"
proof (intro conjI impI)
  show "is_expired_acknowledgment q now \<longleftrightarrow>
      acknowledged q \<and> acknowledged_time q \<noteq> 0 \<and> acknowledged_time q \<le> now"
    by (auto simp: is_expired_acknowledgment_def)
next
  assume h: "acknowledged q \<and> acknowledged_time q = now - 1 \<and> now \<noteq> 1"
  then show "get_status_color q (acknowledged_time q) now \<noteq> Some (QColor 200 255 200)"
    by (auto simp: get_status_color_def)
  from h have "\<not> (acknowledged q \<and> (acknowledged_time q = 0 \<or> acknowledged_time q > now))"
    by auto
  then show "final_color q now min_time max_time \<noteq> QColor 200 255 200"
    by (rule final_color_not_acknowledged)
next
  assume "acknowledged q \<and> acknowledged_time q = now + 3600"
  then show "final_color q now min_time max_time = QColor 200 255 200"
    by (simp add: final_color_def get_status_color_def)
next
  show "snd (load_subscription_data loads env db) = db"
    by (rule load_subscription_data_store)
qed

theorem acknowledgment_expiry_counterexample:
  "acknowledged \<lparr>query_id = Some 1, query_text = ''q'', human_name = ''h'',
        display_name = ''d'', last_check_time = 0, next_check_time = 0, next_check_status = ''s'',
        paused = False, dead = False, checking_now = False, can_check_now = False,
        checker_status = 0, file_velocity = [], file_seed_cache_status = ''c'', last_file_time = 100,
        acknowledged = True, acknowledged_time = 1 - 1\<rparr> \<and>
   acknowledged_time \<lparr>query_id = Some 1, query_text = ''q'', human_name = ''h'',
         display_name = ''d'', last_check_time = 0, next_check_time = 0, next_check_status = ''s'',
         paused = False, dead = False, checking_now = False, can_check_now = False,
         checker_status = 0, file_velocity = [], file_seed_cache_status = ''c'',
         last_file_time = 100, acknowledged = True, acknowledged_time = 1 - 1\<rparr> = 1 - 1 \<and>
   final_color \<lparr>query_id = Some 1, query_text = ''q'', human_name = ''h'',
         display_name = ''d'', last_check_time = 0, next_check_time = 0, next_check_status = ''s'',
         paused = False, dead = False, checking_now = False, can_check_now = False,
         checker_status = 0, file_velocity = [], file_seed_cache_status = ''c'',
         last_file_time = 100, acknowledged = True,
         acknowledged_time = 1 - 1\<rparr> 1 100 200 = QColor 200 255 200"
  by (simp add: final_color_def get_status_color_def)

theorem acknowledgment_expiry_witness:
  "let q = \<lparr>query_id = Some 1, query_text = ''q'', human_name = ''h'', display_name = ''d'',
        last_check_time = 0, next_check_time = 0, next_check_status = ''s'', paused = False,
        dead = False, checking_now = False, can_check_now = False, checker_status = 0,
        file_velocity = [], file_seed_cache_status = ''c'', last_file_time = 150,
        acknowledged = True, acknowledged_time = 999\<rparr>;
       db = \<lparr>subscriptions_table = Some [\<lparr>s_id = 1, s_name = SText ''sub'',
             s_gug_name = SText ''g''\<rparr>], queries_table = Some [\<lparr>q_id = 1,
             q_subscription_id = SInt 1, q_query_text = SText ''q'', q_human_name = SText ''h'',
             q_display_name = SText ''d'', q_last_check_time = SInt 0, q_next_check_time = SInt 0,
             q_next_check_status = SText ''s'', q_paused = SInt 0, q_dead = SInt 0,
             q_checking_now = SInt 0, q_can_check_now = SInt 0, q_checker_status = SInt 0,
             q_file_velocity_data = SText ''[]'', q_file_seed_cache_status = SText ''c'',
             q_last_file_time = SInt 100, q_acknowledged = SInt 0,
             q_acknowledged_time = SInt 0\<rparr>], subscriptions_seq = 1, queries_seq = 1\<rparr>;
       env = \<lparr>can_connect = True, failing = {}\<rparr>
   in acknowledged q \<and> acknowledged_time q = 1000 - 1 \<and> (1000::int) \<noteq> 1 \<and>
      is_expired_acknowledgment q 1000 \<and>
      final_color q 1000 100 200 \<noteq> QColor 200 255 200 \<and>
      final_color q 1000 100 200 = QColor 255 190 130 \<and>
      acknowledged (q\<lparr>acknowledged_time := 1000 + 3600\<rparr>) \<and>
      acknowledged_time (q\<lparr>acknowledged_time := 1000 + 3600\<rparr>) = 1000 + 3600 \<and>
      \<not> is_expired_acknowledgment (q\<lparr>acknowledged_time := 1000 + 3600\<rparr>) 1000 \<and>
      final_color (q\<lparr>acknowledged_time := 1000 + 3600\<rparr>) 1000 100 200 = QColor 200 255 200 \<and>
      snd (load_subscription_data (\<lambda>s. Some (PList [])) env db) = db"
proof -
  let ?q = "\<lparr>query_id = Some 1, query_text = ''q'', human_name = ''h'', display_name = ''d'',
        last_check_time = 0, next_check_time = 0, next_check_status = ''s'', paused = False,
        dead = False, checking_now = False, can_check_now = False, checker_status = 0,
        file_velocity = [], file_seed_cache_status = ''c'', last_file_time = 150,
        acknowledged = True, acknowledged_time = 999\<rparr>"
  let ?q' = "?q\<lparr>acknowledged_time := 1000 + 3600\<rparr>"
  let ?db = "\<lparr>subscriptions_table = Some [\<lparr>s_id = 1, s_name = SText ''sub'',
        s_gug_name = SText ''g''\<rparr>], queries_table = Some [\<lparr>q_id = 1,
        q_subscription_id = SInt 1, q_query_text = SText ''q'', q_human_name = SText ''h'',
        q_display_name = SText ''d'', q_last_check_time = SInt 0, q_next_check_time = SInt 0,
        q_next_check_status = SText ''s'', q_paused = SInt 0, q_dead = SInt 0,
        q_checking_now = SInt 0, q_can_check_now = SInt 0, q_checker_status = SInt 0,
        q_file_velocity_data = SText ''[]'', q_file_seed_cache_status = SText ''c'',
        q_last_file_time = SInt 100, q_acknowledged = SInt 0, q_acknowledged_time = SInt 0\<rparr>],
        subscriptions_seq = 1, queries_seq = 1\<rparr>"
  let ?env = "\<lparr>can_connect = True, failing = {}\<rparr>"
  have h1: "acknowledged ?q \<and> acknowledged_time ?q = 1000 - 1 \<and> (1000::int) \<noteq> 1" by simp
  have h2: "acknowledged ?q' \<and> acknowledged_time ?q' = 1000 + 3600" by simp
  have g: "final_color ?q 1000 100 200 = QColor 255 190 130" by code_simp
  from acknowledgment_expiry[of ?q 1000 100 200 "\<lambda>s. Some (PList [])" ?env ?db] h1
  have a: "is_expired_acknowledgment ?q 1000 \<and> final_color ?q 1000 100 200 \<noteq> QColor 200 255 200 \<and>
           snd (load_subscription_data (\<lambda>s. Some (PList [])) ?env ?db) = ?db"
    by simp
  from acknowledgment_expiry[of ?q' 1000 100 200 "\<lambda>s. Some (PList [])" ?env ?db] h2
  have b: "\<not> is_expired_acknowledgment ?q' 1000 \<and> final_color ?q' 1000 100 200 = QColor 200 255 200"
    by simp
  show ?thesis
    unfolding Let_def using h1 h2 g a b by blast
qed

end
